theory Spec2Isabelle
  imports Main
begin

section \<open>JavaScript values\<close>

text \<open>
  The payloads that travel through the bus are plain JavaScript data. Numbers are the
  integers (of a size that prints without exponent), strings are lists of 8-bit
  characters, an object is its own properties in insertion order, and an array carries,
  besides its elements, the named (non-index) properties that an assignment such as
  \<^verbatim>\<open>args.identifier = identifier\<close> puts on it. Functions as payloads, and objects with
  accessors, prototypes or a \<^verbatim>\<open>toJSON\<close> method, are outside this type.
\<close>

datatype jsval =
    JUndefined
  | JNull
  | JBool bool
  | JNum int
  | JStr string
  | JArr "jsval list" "(string \<times> jsval) list"
  | JObj "(string \<times> jsval) list"

text \<open>
  An exception: the \<^verbatim>\<open>TypeError\<close> of the engine, or a value thrown by a function of the
  host.
\<close>

datatype error = TypeError | Thrown jsval

text \<open>The operator \<^verbatim>\<open>typeof\<close>; \<^verbatim>\<open>typeof null\<close> and \<^verbatim>\<open>typeof []\<close> are both "object".\<close>

fun typeof :: "jsval \<Rightarrow> string" where
  "typeof JUndefined = ''undefined''"
| "typeof JNull = ''object''"
| "typeof (JBool b) = ''boolean''"
| "typeof (JNum n) = ''number''"
| "typeof (JStr s) = ''string''"
| "typeof (JArr xs ps) = ''object''"
| "typeof (JObj ps) = ''object''"

text \<open>Truthiness, as the conditional and \<^verbatim>\<open>||\<close> test it.\<close>

fun truthy :: "jsval \<Rightarrow> bool" where
  "truthy JUndefined = False"
| "truthy JNull = False"
| "truthy (JBool b) = b"
| "truthy (JNum n) = (n \<noteq> 0)"
| "truthy (JStr s) = (s \<noteq> [])"
| "truthy (JArr xs ps) = True"
| "truthy (JObj ps) = True"

definition js_or :: "jsval \<Rightarrow> jsval \<Rightarrow> jsval" where
  "js_or a b = (if truthy a then a else b)"

text \<open>
  Property assignment \<^verbatim>\<open>o[k] = v\<close> for a key that is not an array index: an existing
  property keeps its place, a new one is added last. Assigning on \<^verbatim>\<open>null\<close> or
  \<^verbatim>\<open>undefined\<close> raises; on another primitive it is dropped silently (the source is
  not in strict mode).
\<close>

fun assign :: "(string \<times> jsval) list \<Rightarrow> string \<Rightarrow> jsval \<Rightarrow> (string \<times> jsval) list" where
  "assign [] k v = [(k, v)]"
| "assign (p # ps) k v = (if fst p = k then (k, v) # ps else p # assign ps k v)"

fun set_prop :: "jsval \<Rightarrow> string \<Rightarrow> jsval \<Rightarrow> error + jsval" where
  "set_prop (JObj ps) k v = Inr (JObj (assign ps k v))"
| "set_prop (JArr xs ps) k v = Inr (JArr xs (assign ps k v))"
| "set_prop JNull k v = Inl TypeError"
| "set_prop JUndefined k v = Inl TypeError"
| "set_prop x k v = Inr x"

text \<open>Property read \<^verbatim>\<open>o[k]\<close>, for a key that is neither an index nor \<^verbatim>\<open>length\<close>.\<close>

fun get_prop :: "jsval \<Rightarrow> string \<Rightarrow> error + jsval" where
  "get_prop (JObj ps) k = Inr (case map_of ps k of None \<Rightarrow> JUndefined | Some v \<Rightarrow> v)"
| "get_prop (JArr xs ps) k = Inr (case map_of ps k of None \<Rightarrow> JUndefined | Some v \<Rightarrow> v)"
| "get_prop JNull k = Inl TypeError"
| "get_prop JUndefined k = Inl TypeError"
| "get_prop x k = Inr JUndefined"

subsection \<open>\<^verbatim>\<open>JSON.stringify\<close>\<close>

definition digit_char :: "nat \<Rightarrow> char" where
  "digit_char d = ''0123456789abcdef'' ! d"

fun digits :: "nat \<Rightarrow> string" where
  "digits n = (if n < 10 then [digit_char n] else digits (n div 10) @ [digit_char (n mod 10)])"

declare digits.simps [simp del]

definition number_to_string :: "int \<Rightarrow> string" where
  "number_to_string n = (if n < 0 then CHR ''-'' # digits (nat (- n)) else digits (nat n))"

text \<open>
  Quoting a string: the double quote (0x22) and the backslash (0x5C) are escaped, the
  control characters get their short escape or \<^verbatim>\<open>u00XX\<close>.
\<close>

definition QuoteJSONString_char :: "char \<Rightarrow> string" where
  "QuoteJSONString_char c =
     (let n = (of_char c :: nat) in
      if n = 0x22 then [CHR 0x5C, CHR 0x22]
      else if n = 0x5C then [CHR 0x5C, CHR 0x5C]
      else if n = 0x08 then [CHR 0x5C, CHR ''b'']
      else if n = 0x0C then [CHR 0x5C, CHR ''f'']
      else if n = 0x0A then [CHR 0x5C, CHR ''n'']
      else if n = 0x0D then [CHR 0x5C, CHR ''r'']
      else if n = 0x09 then [CHR 0x5C, CHR ''t'']
      else if n < 0x20 then
        [CHR 0x5C, CHR ''u'', CHR ''0'', CHR ''0'', digit_char (n div 16), digit_char (n mod 16)]
      else [c])"

definition QuoteJSONString :: "string \<Rightarrow> string" where
  "QuoteJSONString s = CHR 0x22 # concat (map QuoteJSONString_char s) @ [CHR 0x22]"

fun join :: "string \<Rightarrow> string list \<Rightarrow> string" where
  "join sep [] = []"
| "join sep [x] = x"
| "join sep (x # y # ys) = x @ sep @ join sep (y # ys)"

text \<open>
  \<^verbatim>\<open>JSON.stringify\<close> returns \<^verbatim>\<open>undefined\<close> (here \<open>None\<close>) for the value
  \<^verbatim>\<open>undefined\<close>. Inside an array such an element is written \<^verbatim>\<open>null\<close>, inside an
  object the property is left out. The named properties of an array are not serialized.
\<close>

fun JSON_stringify :: "jsval \<Rightarrow> string option"
  and SerializeJSONArray :: "jsval list \<Rightarrow> string list"
  and SerializeJSONObject :: "(string \<times> jsval) list \<Rightarrow> string list"
where
  "JSON_stringify JUndefined = None"
| "JSON_stringify JNull = Some ''null''"
| "JSON_stringify (JBool b) = Some (if b then ''true'' else ''false'')"
| "JSON_stringify (JNum n) = Some (number_to_string n)"
| "JSON_stringify (JStr s) = Some (QuoteJSONString s)"
| "JSON_stringify (JArr xs ps) = Some (''['' @ join '','' (SerializeJSONArray xs) @ '']'')"
| "JSON_stringify (JObj ps) = Some (''{'' @ join '','' (SerializeJSONObject ps) @ ''}'')"
| "SerializeJSONArray [] = []"
| "SerializeJSONArray (x # xs) =
     (case JSON_stringify x of None \<Rightarrow> ''null'' | Some str \<Rightarrow> str) # SerializeJSONArray xs"
| "SerializeJSONObject [] = []"
| "SerializeJSONObject (p # ps) =
     (case JSON_stringify (snd p) of
        None \<Rightarrow> SerializeJSONObject ps
      | Some str \<Rightarrow> (QuoteJSONString (fst p) @ '':'' @ str) # SerializeJSONObject ps)"

text \<open>
  What \<^verbatim>\<open>socketPump.push(JSON.stringify(v))\<close> stores and \<^verbatim>\<open>Client.send\<close> later
  transmits: the serialization, or the text of \<^verbatim>\<open>undefined\<close> when there is none.
\<close>

definition pushed_text :: "jsval \<Rightarrow> string" where
  "pushed_text v = (case JSON_stringify v of None \<Rightarrow> ''undefined'' | Some str \<Rightarrow> str)"

section \<open>Identifier normalization\<close>

text \<open>
  The source has no normalizer function: every operation repeats the expression
  \<^verbatim>\<open>options.camelCase ? identifier.replace(/-([A-Za-z0-9])/gi, (s, g) => g.toUpperCase()) : identifier\<close>.
  The global replace scans from the left; at a dash followed by a character of the class
  it emits that character in upper case and continues after it, otherwise it copies one
  character. Without the \<^verbatim>\<open>u\<close> flag the \<^verbatim>\<open>i\<close> flag adds no character outside ASCII to
  either class.
\<close>

definition is_digit :: "char \<Rightarrow> bool" where
  "is_digit c = (48 \<le> (of_char c :: nat) \<and> (of_char c :: nat) \<le> 57)"

definition is_upper :: "char \<Rightarrow> bool" where
  "is_upper c = (65 \<le> (of_char c :: nat) \<and> (of_char c :: nat) \<le> 90)"

definition is_lower :: "char \<Rightarrow> bool" where
  "is_lower c = (97 \<le> (of_char c :: nat) \<and> (of_char c :: nat) \<le> 122)"

text \<open>The class \<^verbatim>\<open>[A-Za-z0-9]\<close> of attach, detach and the inbound message handler.\<close>

definition alnum :: "char \<Rightarrow> bool" where
  "alnum c = (is_upper c \<or> is_lower c \<or> is_digit c)"

text \<open>The class \<^verbatim>\<open>[a-z]\<close> under the \<^verbatim>\<open>i\<close> flag, of the local \<^verbatim>\<open>emitHandler\<close>.\<close>

definition alpha :: "char \<Rightarrow> bool" where
  "alpha c = (is_lower c \<or> is_upper c)"

definition toUpperCase :: "char \<Rightarrow> char" where
  "toUpperCase c = (if is_lower c then char_of ((of_char c :: nat) - 32) else c)"

fun replace_dash :: "(char \<Rightarrow> bool) \<Rightarrow> string \<Rightarrow> string" where
  "replace_dash cls (d # c # rest) =
     (if d = CHR ''-'' \<and> cls c then toUpperCase c # replace_dash cls rest
      else d # replace_dash cls (c # rest))"
| "replace_dash cls s = s"

text \<open>The expression as attach, detach and \<^verbatim>\<open>messageHandler\<close> write it.\<close>

definition normalize_identifier :: "jsval \<Rightarrow> string \<Rightarrow> string" where
  "normalize_identifier camelCase ident = (if truthy camelCase then replace_dash alnum ident else ident)"

text \<open>The expression as the local \<^verbatim>\<open>emitHandler\<close> writes it (lines 283 to 286).\<close>

definition normalize_local_emit :: "jsval \<Rightarrow> string \<Rightarrow> string" where
  "normalize_local_emit camelCase ident =
     (if truthy camelCase then replace_dash alpha ident else ident)"

text \<open>A dash followed by a character of the class occurs in the string.\<close>

fun dash_then :: "(char \<Rightarrow> bool) \<Rightarrow> string \<Rightarrow> bool" where
  "dash_then cls (d # c # rest) = ((d = CHR ''-'' \<and> cls c) \<or> dash_then cls (c # rest))"
| "dash_then cls s = False"

text \<open>Two dashes followed by a character of the class occur in the string.\<close>

fun dash_dash_then :: "(char \<Rightarrow> bool) \<Rightarrow> string \<Rightarrow> bool" where
  "dash_dash_then cls (a # b # c # rest) =
     ((a = CHR ''-'' \<and> b = CHR ''-'' \<and> cls c) \<or> dash_dash_then cls (b # c # rest))"
| "dash_dash_then cls s = False"

section \<open>Callbacks and the handler registry\<close>

text \<open>
  A function of the host (a subscriber's callback, a hook of the options) is known by its
  reference. The other function values are the closures \<^verbatim>\<open>once\<close> that \<^verbatim>\<open>$once\<close>
  builds, each with the \<^verbatim>\<open>identifier\<close>, \<^verbatim>\<open>callback\<close> and \<^verbatim>\<open>thisArg\<close> it captures.
  These closures never leave the module, so no caller can pass one to detach; equality of
  two of them is therefore never tested by the source. Functions of the host are taken to
  carry no \<^verbatim>\<open>fn\<close> property.
\<close>

type_synonym ref = nat

datatype func = Fn ref | Once string func ref

text \<open>The property \<^verbatim>\<open>fn\<close> of a function value: \<^verbatim>\<open>once.fn = callback\<close>.\<close>

fun fn_prop :: "func \<Rightarrow> func option" where
  "fn_prop (Fn f) = None"
| "fn_prop (Once ident cb this_arg) = Some cb"

type_synonym call = "ref \<times> ref option \<times> jsval list"

record handler =
  callback :: func
  thisArg :: "ref option"

text \<open>
  \<^verbatim>\<open>Handlers = Object.create(null)\<close>: an object without prototype, so its keys are exactly
  the ones assigned. A key holds a reference to an array of entries or, after the
  one-argument detach, \<^verbatim>\<open>null\<close>. The arrays themselves live in a store, by reference:
  the loop of an emit keeps iterating over the array it found even when a callback
  splices that array, or replaces it under its key, in the meantime.
\<close>

datatype slot = Null | Array nat

type_synonym registry = "string \<Rightarrow> slot option"

record array_store =
  contents :: "nat \<Rightarrow> handler list"
  fresh :: nat

text \<open>
  \<^verbatim>\<open>attachHandler\<close> (lines 113 to 123, and again 232 to 242):
  \<^verbatim>\<open>(Handlers[identifier] || (Handlers[identifier] = [])).push({callback, thisArg})\<close>.
\<close>

definition attachHandler ::
  "jsval \<Rightarrow> string \<Rightarrow> func \<Rightarrow> ref option \<Rightarrow> registry \<times> array_store \<Rightarrow> registry \<times> array_store" where
  "attachHandler camelCase ident cb this_arg R =
     (let Handlers = fst R; store = snd R;
          key = normalize_identifier camelCase ident;
          entry = \<lparr>callback = cb, thisArg = this_arg\<rparr>;
          created = (Handlers(key \<mapsto> Array (fresh store)),
                     store\<lparr>contents := (contents store)(fresh store := [entry]),
                           fresh := Suc (fresh store)\<rparr>)
      in case Handlers key of
           Some (Array a) \<Rightarrow>
             (Handlers, store\<lparr>contents := (contents store)(a := contents store a @ [entry])\<rparr>)
         | Some Null \<Rightarrow> created
         | None \<Rightarrow> created)"

text \<open>
  The test of the detach loop,
  \<^verbatim>\<open>Handler[index].callback === callback || Handler[index].callback.fn === callback\<close>,
  where the argument \<^verbatim>\<open>callback\<close> may be \<^verbatim>\<open>undefined\<close> (\<open>None\<close>).
\<close>

definition matches :: "handler \<Rightarrow> func option \<Rightarrow> bool" where
  "matches h cb = (Some (callback h) = cb \<or> fn_prop (callback h) = cb)"

text \<open>
  \<^verbatim>\<open>for (let index = Handler.length - 1; index >= 0; index--) if (...) Handler.splice(index, 1)\<close>;
  the first argument counts the indices still to visit, so \<open>Suc i\<close> visits index \<open>i\<close>.
  The loop starts at the last index and a removal only shortens the array above the
  indices still to visit, so the index is always in range; the test \<open>i < length Handler\<close>
  is there to make the function total.
\<close>

fun splice_loop :: "func option \<Rightarrow> nat \<Rightarrow> handler list \<Rightarrow> handler list" where
  "splice_loop cb 0 Handler = Handler"
| "splice_loop cb (Suc i) Handler =
     splice_loop cb i
       (if i < length Handler \<and> matches (Handler ! i) cb
        then take i Handler @ drop (Suc i) Handler else Handler)"

text \<open>
  The call shapes of \<^verbatim>\<open>detachHandler\<close>, told apart by \<^verbatim>\<open>arguments.length\<close>: none, the
  identifier alone, or the identifier and a callback (and possibly more, as \<^verbatim>\<open>$off\<close>
  passes).
\<close>

datatype detach_call = NoArguments | OneArgument string | MoreArguments string "func option"

text \<open>
  \<^verbatim>\<open>detachHandler\<close> (lines 131 to 155, and again 250 to 274). Its first statement
  normalizes \<^verbatim>\<open>identifier\<close>; called without arguments, \<^verbatim>\<open>identifier\<close> is
  \<^verbatim>\<open>undefined\<close>, and with \<^verbatim>\<open>options.camelCase\<close> truthy the call
  \<^verbatim>\<open>identifier.replace\<close> raises before \<^verbatim>\<open>arguments.length\<close> is looked at. The
  two-argument form splices the array in place: the key keeps its reference.
\<close>

fun detachHandler ::
  "jsval \<Rightarrow> detach_call \<Rightarrow> registry \<times> array_store \<Rightarrow> error + registry \<times> array_store" where
  "detachHandler camelCase NoArguments R =
     (if truthy camelCase then Inl TypeError else Inr (Map.empty, snd R))"
| "detachHandler camelCase (OneArgument ident) R =
     (let Handlers = fst R; key = normalize_identifier camelCase ident
      in case Handlers key of
           Some (Array a) \<Rightarrow> Inr (Handlers(key \<mapsto> Null), snd R)
         | Some Null \<Rightarrow> Inr R
         | None \<Rightarrow> Inr R)"
| "detachHandler camelCase (MoreArguments ident cb) R =
     (let Handlers = fst R; store = snd R; key = normalize_identifier camelCase ident
      in case Handlers key of
           Some (Array a) \<Rightarrow>
             Inr (Handlers,
                  store\<lparr>contents := (contents store)
                     (a := splice_loop cb (length (contents store a)) (contents store a))\<rparr>)
         | Some Null \<Rightarrow> Inr R
         | None \<Rightarrow> Inr R)"

section \<open>Options\<close>

text \<open>
  The options object. It is the host's own object: the remote channel keeps the reference
  it was given and reads \<^verbatim>\<open>options.camelCase\<close> again at every attach, detach and
  inbound frame. So the operations of the remote channel take the object as it is when
  they run, and every property may be missing. \<^verbatim>\<open>camelCase\<close> is kept as a value
  (\<open>JUndefined\<close> when missing) because the source only tests its truthiness.
  \<open>options_readonly\<close> lists the names of the properties that do not take an assignment:
  all of them on an object the host has frozen with \<^verbatim>\<open>Object.freeze\<close>, or single ones
  that are not writable. The source is not in strict mode, so such an assignment is
  dropped silently and the property keeps its value. (A truthy primitive passed as the
  options behaves as a frozen object without properties.)
\<close>

record options =
  options_secure :: "bool option"
  options_host :: "string option"
  options_port :: "int option"
  options_identifier :: "string option"
  options_endpoint :: "string option"
  options_camelCase :: jsval
  options_protocol :: "string option"
  options_openHandler :: "ref option"
  options_errorHandler :: "ref option"
  options_closeHandler :: "ref option"
  options_readonly :: "string list"

text \<open>The object \<^verbatim>\<open>{}\<close>.\<close>

definition no_options :: options where
  "no_options = \<lparr>options_secure = None, options_host = None, options_port = None,
     options_identifier = None, options_endpoint = None, options_camelCase = JUndefined,
     options_protocol = None, options_openHandler = None, options_errorHandler = None,
     options_closeHandler = None, options_readonly = []\<rparr>"

text \<open>
  Lines 21 to 27 of the remote channel: \<^verbatim>\<open>options = options || {}\<close> and then
  \<^verbatim>\<open>options.x = options.x || default\<close> for each property, assigned on the object
  itself, where the property takes the assignment; the empty string and the number 0 are
  falsy. The result is the object as install leaves it. When the host supplied the
  object it can change it afterwards; the object made for a missing argument is known to
  the channel alone.
\<close>

text \<open>The object of the host after \<^verbatim>\<open>Object.freeze\<close>: no property takes an assignment.\<close>

definition frozen :: "options \<Rightarrow> options" where
  "frozen g = g\<lparr>options_readonly :=
     [''secure'', ''host'', ''port'', ''identifier'', ''endpoint'', ''camelCase'', ''protocol'',
      ''openHandler'', ''errorHandler'', ''closeHandler'']\<rparr>"


definition writable :: "options \<Rightarrow> string \<Rightarrow> bool" where
  "writable g name = (name \<notin> set (options_readonly g))"

definition remote_options :: "options option \<Rightarrow> options" where
  "remote_options given =
     (let g = (case given of None \<Rightarrow> no_options | Some g \<Rightarrow> g) in
      g\<lparr>options_secure :=
          (if writable g ''secure''
           then Some (case options_secure g of None \<Rightarrow> False | Some b \<Rightarrow> b)
           else options_secure g),
        options_host :=
          (if writable g ''host''
           then Some (case options_host g of None \<Rightarrow> ''localhost''
                      | Some h \<Rightarrow> if h \<noteq> [] then h else ''localhost'')
           else options_host g),
        options_port :=
          (if writable g ''port''
           then Some (case options_port g of None \<Rightarrow> 8080
                      | Some p \<Rightarrow> if p \<noteq> 0 then p else 8080)
           else options_port g),
        options_identifier :=
          (if writable g ''identifier''
           then Some (case options_identifier g of None \<Rightarrow> ''identifier''
                      | Some i \<Rightarrow> if i \<noteq> [] then i else ''identifier'')
           else options_identifier g),
        options_endpoint :=
          (if writable g ''endpoint''
           then Some (case options_endpoint g of None \<Rightarrow> [] | Some e \<Rightarrow> e)
           else options_endpoint g),
        options_camelCase :=
          (if writable g ''camelCase''
           then js_or (options_camelCase g) (JBool True)
           else options_camelCase g)\<rparr>)"

text \<open>
  Lines 221 and 222 of the local channel. Its function is called without an argument
  (line 318), so the host's options never reach it: \<^verbatim>\<open>options\<close> is a new object
  \<^verbatim>\<open>{}\<close> that nothing else refers to, \<^verbatim>\<open>options.camelCase\<close> is
  \<^verbatim>\<open>undefined || true\<close>, and \<^verbatim>\<open>options.identifier\<close> stays \<^verbatim>\<open>undefined\<close>.
\<close>

definition local_camelCase :: jsval where
  "local_camelCase = js_or JUndefined (JBool True)"

section \<open>The two channels\<close>

text \<open>
  A \<^verbatim>\<open>WebSocket\<close> as the remote channel sees it: the address it was opened on, its
  \<^verbatim>\<open>readyState\<close> and the frames handed to \<^verbatim>\<open>send\<close> so far.
\<close>

record websocket =
  url :: string
  protocol :: "string option"
  readyState :: nat
  sent :: "string list"

definition CONNECTING :: nat where "CONNECTING = 0"

definition OPEN :: nat where "OPEN = 1"

definition CLOSING :: nat where "CLOSING = 2"

definition CLOSED :: nat where "CLOSED = 3"

text \<open>
  The variables of the two closures (\<^verbatim>\<open>Client\<close>, \<^verbatim>\<open>Handlers\<close>, \<^verbatim>\<open>socketPump\<close>,
  \<^verbatim>\<open>pumpInterval\<close> of the remote one, \<^verbatim>\<open>Handlers\<close> of the local one), the interval
  timers of the window that run \<^verbatim>\<open>pumpHandler\<close>, the calls made to host functions, the
  store of the handler arrays, and the memory of the host, which the bus never reads.
\<close>

record state =
  Client :: "websocket option"
  remote_Handlers :: registry
  socketPump :: "string list"
  pumpInterval :: "nat option"
  local_Handlers :: registry
  window_intervals :: "nat list"
  calls :: "call list"
  arrays :: array_store
  host_memory :: nat

text \<open>
  The state install leaves: line 202 arms the timer,
  \<^verbatim>\<open>if (!pumpInterval) window.setInterval(pumpHandler, 250)\<close>, without storing the
  identifier \<^verbatim>\<open>setInterval\<close> returns.
\<close>

definition install :: "nat \<Rightarrow> state" where
  "install timer =
     \<lparr>Client = None, remote_Handlers = Map.empty, socketPump = [], pumpInterval = None,
      local_Handlers = Map.empty, window_intervals = [timer], calls = [],
      arrays = \<lparr>contents = (\<lambda>a. []), fresh = 0\<rparr>, host_memory = 0\<rparr>"

subsection \<open>Calling the subscribers\<close>

text \<open>
  What a function of the host does when the bus calls it is not in the source, so it is a
  parameter: from the function's reference, the receiver, the arguments and the state at
  the call, the exception it raises (if any) and the state it leaves. The function may
  change anything it can reach. In particular it may raise, and it may call attach,
  detach or emit, also on the identifier being emitted. (A callback may also modify the
  payload object it receives; the record of a call keeps the payload as the bus passed
  it.)
\<close>

type_synonym host_behaviour = "ref \<Rightarrow> ref option \<Rightarrow> jsval list \<Rightarrow> state \<Rightarrow> error option \<times> state"

text \<open>
  \<^verbatim>\<open>f.apply(thisArg, args)\<close>. The call of a host function is recorded, then the
  function runs. The body of \<^verbatim>\<open>once\<close> is
  \<^verbatim>\<open>Vue.remote.detach(identifier, callback); callback.apply(thisArg, arguments)\<close>.
  Nothing defines a property \<^verbatim>\<open>remote\<close> on \<^verbatim>\<open>Vue\<close>: install sets
  \<^verbatim>\<open>Vue.Events\<close>, \<^verbatim>\<open>Vue.getRemoteID\<close> and \<^verbatim>\<open>Vue.prototype.$events\<close>, and the
  registries are \<^verbatim>\<open>Vue.Events.remote\<close> and \<^verbatim>\<open>Vue.Events.local\<close>. So
  \<^verbatim>\<open>Vue.remote\<close> is \<^verbatim>\<open>undefined\<close> and reading \<^verbatim>\<open>detach\<close> from it raises
  before the second statement is reached.
\<close>

fun apply_callback ::
  "host_behaviour \<Rightarrow> func \<Rightarrow> ref option \<Rightarrow> jsval list \<Rightarrow> state \<Rightarrow> error option \<times> state" where
  "apply_callback B (Fn f) this_arg args s =
     B f this_arg args (s\<lparr>calls := calls s @ [(f, this_arg, args)]\<rparr>)"
| "apply_callback B (Once ident cb captured) this_arg args s = (Some TypeError, s)"

text \<open>
  \<^verbatim>\<open>Events.forEach((Event) => Event.callback.apply(Event.thisArg, args))\<close> on the array
  with reference \<open>a\<close>. \<^verbatim>\<open>forEach\<close> reads the length once, before the first call, and
  then visits the indices below it in order, each time reading the array as it is then:
  an index that a splice has meanwhile moved past the end is skipped, and entries pushed
  beyond the initial length are not visited. There is no \<^verbatim>\<open>try\<close> around the call, so
  an exception ends the loop and leaves the state the callbacks have made. The third
  numeric argument counts the indices still to visit.
\<close>

fun forEach_from ::
  "host_behaviour \<Rightarrow> nat \<Rightarrow> jsval list \<Rightarrow> nat \<Rightarrow> nat \<Rightarrow> state \<Rightarrow> error option \<times> state" where
  "forEach_from B a args k 0 s = (None, s)"
| "forEach_from B a args k (Suc n) s =
     (if k < length (contents (arrays s) a)
      then (case apply_callback B (callback (contents (arrays s) a ! k))
                   (thisArg (contents (arrays s) a ! k)) args s of
              (Some e, s') \<Rightarrow> (Some e, s')
            | (None, s') \<Rightarrow> forEach_from B a args (Suc k) n s')
      else forEach_from B a args (Suc k) n s)"

definition forEach :: "host_behaviour \<Rightarrow> nat \<Rightarrow> jsval list \<Rightarrow> state \<Rightarrow> error option \<times> state" where
  "forEach B a args s = forEach_from B a args 0 (length (contents (arrays s) a)) s"

subsection \<open>The remote channel\<close>

text \<open>
  \<^verbatim>\<open>connect\<close> (lines 32 to 39): \<^verbatim>\<open>Client = new WebSocket(url, options.protocol)\<close>,
  a socket that starts in the state \<^verbatim>\<open>CONNECTING\<close>, followed by the registration of
  the four handlers. A missing property prints as \<^verbatim>\<open>undefined\<close> in the template of
  the address. The address is taken to be one the constructor accepts.
\<close>

definition connect :: "options \<Rightarrow> state \<Rightarrow> state" where
  "connect opts s =
     s\<lparr>Client := Some
         \<lparr>url = (if options_secure opts = Some True then ''wss://'' else ''ws://'') @
                 (case options_host opts of None \<Rightarrow> ''undefined'' | Some h \<Rightarrow> h) @
                 (case options_port opts of
                    None \<Rightarrow> []
                  | Some p \<Rightarrow> if p \<noteq> 0 then '':'' @ number_to_string p else [])
                 @ ''/'' @ (case options_endpoint opts of None \<Rightarrow> ''undefined'' | Some e \<Rightarrow> e),
          protocol = options_protocol opts,
          readyState = CONNECTING,
          sent = []\<rparr>\<rparr>"

text \<open>
  A hook of the options, called with the event when it is set, as in
  \<^verbatim>\<open>if (options.openHandler) options.openHandler(open)\<close>. What the handlers print
  with \<^verbatim>\<open>console.log\<close> is not part of the state. The call is recorded; the hooks
  are taken to return normally and not to call the bus.
\<close>

definition call_hook :: "ref option \<Rightarrow> jsval \<Rightarrow> state \<Rightarrow> state" where
  "call_hook hook event s =
     (case hook of None \<Rightarrow> s | Some f \<Rightarrow> s\<lparr>calls := calls s @ [(f, None, [event])]\<rparr>)"

definition openHandler :: "options \<Rightarrow> jsval \<Rightarrow> state \<Rightarrow> state" where
  "openHandler opts event s = call_hook (options_openHandler opts) event s"

definition errorHandler :: "options \<Rightarrow> jsval \<Rightarrow> state \<Rightarrow> state" where
  "errorHandler opts event s = call_hook (options_errorHandler opts) event s"

definition closeHandler :: "options \<Rightarrow> jsval \<Rightarrow> state \<Rightarrow> state" where
  "closeHandler opts event s =
     (let s1 = call_hook (options_closeHandler opts) event s;
          s2 = (case pumpInterval s1 of
                  None \<Rightarrow> s1
                | Some t \<Rightarrow> s1\<lparr>window_intervals := removeAll t (window_intervals s1),
                               pumpInterval := None\<rparr>)
      in s2\<lparr>Client := None\<rparr>)"

text \<open>
  The browser's side of a successful connection: the socket's \<^verbatim>\<open>readyState\<close> becomes
  \<^verbatim>\<open>OPEN\<close> and its \<^verbatim>\<open>onopen\<close> handler runs.
\<close>

definition socket_opens :: "options \<Rightarrow> jsval \<Rightarrow> state \<Rightarrow> state" where
  "socket_opens opts event s =
     openHandler opts event
       (case Client s of None \<Rightarrow> s | Some c \<Rightarrow> s\<lparr>Client := Some (c\<lparr>readyState := OPEN\<rparr>)\<rparr>)"

text \<open>\<^verbatim>\<open>attach\<close> and \<^verbatim>\<open>detach\<close> of the remote channel, on its own registry.\<close>

definition remote_attach :: "options \<Rightarrow> string \<Rightarrow> func \<Rightarrow> ref option \<Rightarrow> state \<Rightarrow> state" where
  "remote_attach opts ident cb this_arg s =
     (case attachHandler (options_camelCase opts) ident cb this_arg (remote_Handlers s, arrays s) of
        (H, store) \<Rightarrow> s\<lparr>remote_Handlers := H, arrays := store\<rparr>)"

definition remote_detach :: "options \<Rightarrow> detach_call \<Rightarrow> state \<Rightarrow> error option \<times> state" where
  "remote_detach opts d s =
     (case detachHandler (options_camelCase opts) d (remote_Handlers s, arrays s) of
        Inl e \<Rightarrow> (Some e, s)
      | Inr (H, store) \<Rightarrow> (None, s\<lparr>remote_Handlers := H, arrays := store\<rparr>))"

text \<open>
  \<^verbatim>\<open>ToString\<close>, for the property key of \<^verbatim>\<open>Handlers[identifier]\<close> when the identifier
  of a frame is used as it came.
\<close>

fun ToString :: "jsval \<Rightarrow> string"
  and ToString_elements :: "jsval list \<Rightarrow> string list"
where
  "ToString JUndefined = ''undefined''"
| "ToString JNull = ''null''"
| "ToString (JBool b) = (if b then ''true'' else ''false'')"
| "ToString (JNum n) = number_to_string n"
| "ToString (JStr s) = s"
| "ToString (JArr xs ps) = join '','' (ToString_elements xs)"
| "ToString (JObj ps) = ''[object Object]''"
| "ToString_elements [] = []"
| "ToString_elements (x # xs) =
     (if x = JUndefined \<or> x = JNull then [] else ToString x) # ToString_elements xs"

text \<open>
  \<^verbatim>\<open>messageHandler\<close> (lines 71 to 88), from the frame as \<^verbatim>\<open>JSON.parse\<close> returned it.
  With \<^verbatim>\<open>options.camelCase\<close> truthy the identifier of the frame must be a string, for
  \<^verbatim>\<open>replace\<close> to be there. A missing \<^verbatim>\<open>options.identifier\<close> reads the property
  named "undefined".
\<close>

definition messageHandler ::
  "host_behaviour \<Rightarrow> options \<Rightarrow> jsval \<Rightarrow> state \<Rightarrow> error option \<times> state" where
  "messageHandler B opts Json s =
     (case get_prop Json (case options_identifier opts of None \<Rightarrow> ''undefined'' | Some i \<Rightarrow> i) of
        Inl e \<Rightarrow> (Some e, s)
      | Inr v \<Rightarrow>
          (case (if truthy (options_camelCase opts)
                 then (case v of JStr i \<Rightarrow> Inr (replace_dash alnum i) | _ \<Rightarrow> Inl TypeError)
                 else Inr (ToString v)) of
             Inl e \<Rightarrow> (Some e, s)
           | Inr key \<Rightarrow>
               (case remote_Handlers s key of
                  Some (Array a) \<Rightarrow> forEach B a [Json] s
                | Some Null \<Rightarrow> (None, s)
                | None \<Rightarrow> (None, s))))"

text \<open>
  The remote \<^verbatim>\<open>emitHandler\<close> (lines 163 to 182). The list \<open>extras\<close> holds the arguments
  after the identifier, so \<^verbatim>\<open>arguments.length\<close> is one more than its length.
  \<^verbatim>\<open>args\<close> is \<^verbatim>\<open>arguments[1] || []\<close>, replaced by the array of all extra arguments
  when there are several. The identifier is used as it was passed.
\<close>

definition remote_emitHandler :: "string \<Rightarrow> jsval list \<Rightarrow> state \<Rightarrow> state" where
  "remote_emitHandler ident extras s =
     (let args = (case extras of
                    [] \<Rightarrow> js_or JUndefined (JArr [] [])
                  | [a] \<Rightarrow> js_or a (JArr [] [])
                  | a # b # others \<Rightarrow> JArr extras [])
      in if typeof args = ''object''
         then (case set_prop args ''identifier'' (JStr ident) of
                 Inr args' \<Rightarrow> s\<lparr>socketPump := socketPump s @ [pushed_text args']\<rparr>
               | Inl e \<Rightarrow> s)
         else s\<lparr>socketPump := socketPump s @
                  [pushed_text (JObj [(''identifier'', JStr ident), (''arguments'', args)])]\<rparr>)"

text \<open>\<^verbatim>\<open>Client.send(item)\<close> on an open socket.\<close>

definition send :: "websocket \<Rightarrow> string \<Rightarrow> websocket" where
  "send c item = c\<lparr>sent := sent c @ [item]\<rparr>"

text \<open>
  \<^verbatim>\<open>pumpHandler\<close> (lines 189 to 200), one tick of the timer. After \<^verbatim>\<open>connect()\<close>
  the variable \<^verbatim>\<open>Client\<close> holds a socket, so the read of \<^verbatim>\<open>Client.readyState\<close>
  always finds one.
\<close>

definition pumpHandler :: "options \<Rightarrow> state \<Rightarrow> state" where
  "pumpHandler opts s =
     (if socketPump s = [] then s
      else
        (let s1 = (if Client s = None then connect opts s else s) in
         (case Client s1 of
            None \<Rightarrow> s1
          | Some c \<Rightarrow>
              if readyState c = OPEN
              then s1\<lparr>Client := Some (foldl send c (socketPump s1)), socketPump := []\<rparr>
              else s1)))"

definition disconnect :: "state \<Rightarrow> state" where
  "disconnect s =
     (case Client s of
        None \<Rightarrow> s
      | Some c \<Rightarrow> s\<lparr>Client := None\<rparr>)"

subsection \<open>The local channel\<close>

text \<open>\<^verbatim>\<open>attach\<close> and \<^verbatim>\<open>detach\<close> of the local channel, on its own registry.\<close>

definition local_attach :: "string \<Rightarrow> func \<Rightarrow> ref option \<Rightarrow> state \<Rightarrow> state" where
  "local_attach ident cb this_arg s =
     (case attachHandler local_camelCase ident cb this_arg (local_Handlers s, arrays s) of
        (H, store) \<Rightarrow> s\<lparr>local_Handlers := H, arrays := store\<rparr>)"

definition local_detach :: "detach_call \<Rightarrow> state \<Rightarrow> error option \<times> state" where
  "local_detach d s =
     (case detachHandler local_camelCase d (local_Handlers s, arrays s) of
        Inl e \<Rightarrow> (Some e, s)
      | Inr (H, store) \<Rightarrow> (None, s\<lparr>local_Handlers := H, arrays := store\<rparr>))"

text \<open>
  The local \<^verbatim>\<open>emitHandler\<close> (lines 282 to 311). It normalizes with the class
  \<^verbatim>\<open>[a-z]\<close>, wraps a payload that is not of type "object" as \<^verbatim>\<open>{arguments: args}\<close>
  and then assigns \<^verbatim>\<open>args[options.identifier] = identifier\<close>, where
  \<^verbatim>\<open>options.identifier\<close> is \<^verbatim>\<open>undefined\<close>: the property is named "undefined", and
  the assignment raises when \<^verbatim>\<open>args\<close> is \<^verbatim>\<open>null\<close>. A sole extra argument of type
  "object" is the caller's own object and is modified in place, so the second component
  of the result is the argument list as the caller holds it afterwards. The first
  component is the exception or the value returned. (The source assigns \<^verbatim>\<open>Events\<close>
  without declaring it; outside strict mode that creates a global variable and has no
  other effect.)
\<close>

definition local_emitHandler ::
  "host_behaviour \<Rightarrow> jsval \<Rightarrow> string \<Rightarrow> jsval list \<Rightarrow> state \<Rightarrow>
     (error + bool) \<times> jsval list \<times> state" where
  "local_emitHandler B camelCase ident extras s =
     (let key = normalize_local_emit camelCase ident;
          Events = local_Handlers s key;
          args = (case extras of
                    [] \<Rightarrow> JArr [] []
                  | [a] \<Rightarrow> a
                  | a # b # others \<Rightarrow> JArr extras []);
          args1 = (if typeof args \<noteq> ''object'' then JObj [(''arguments'', args)] else args)
      in case set_prop args1 ''undefined'' (JStr key) of
           Inl e \<Rightarrow> (Inl e, extras, s)
         | Inr args2 \<Rightarrow>
             (let extras' =
                    (if length extras = 1 \<and> typeof args = ''object'' then [args2] else extras)
              in (case Events of
                    Some (Array a) \<Rightarrow>
                      (case forEach B a [args2] s of
                         (None, s') \<Rightarrow> (Inr True, extras', s')
                       | (Some e, s') \<Rightarrow> (Inl e, extras', s'))
                  | Some Null \<Rightarrow> (Inr False, extras', s)
                  | None \<Rightarrow> (Inr False, extras', s))))"

section \<open>The dispatch facade \<^verbatim>\<open>$events\<close>\<close>

text \<open>
  The four methods of \<^verbatim>\<open>Vue.prototype.$events\<close> (lines 370 to 396); \<open>this_ref\<close> is
  the receiver of the call, \<open>opts\<close> the options object of the remote channel as it is at
  the call.
\<close>

definition events_on :: "options \<Rightarrow> ref \<Rightarrow> string \<Rightarrow> bool \<Rightarrow> func \<Rightarrow> state \<Rightarrow> state" where
  "events_on opts this_ref ident isLocal cb s =
     (if isLocal then local_attach ident cb (Some this_ref) s
      else remote_attach opts ident cb (Some this_ref) s)"

definition events_once :: "options \<Rightarrow> ref \<Rightarrow> string \<Rightarrow> bool \<Rightarrow> func \<Rightarrow> state \<Rightarrow> state" where
  "events_once opts this_ref ident isLocal cb s =
     (let once = Once ident cb this_ref in
      if isLocal then local_attach ident once (Some this_ref) s
      else remote_attach opts ident once (Some this_ref) s)"

definition events_off :: "options \<Rightarrow> string \<Rightarrow> func option \<Rightarrow> state \<Rightarrow> error option \<times> state" where
  "events_off opts ident cb s =
     (case local_detach (MoreArguments ident cb) s of
        (Some e, s') \<Rightarrow> (Some e, s')
      | (None, s') \<Rightarrow> remote_detach opts (MoreArguments ident cb) s')"

text \<open>
  \<^verbatim>\<open>$emit\<close>: \<^verbatim>\<open>if (!Vue.Events.local.emit.apply(this, arguments)) Vue.Events.remote.emit.apply(this, arguments)\<close>.
  The remote emit receives the same argument objects, as the local emit left them.
\<close>

definition events_emit ::
  "host_behaviour \<Rightarrow> string \<Rightarrow> jsval list \<Rightarrow> state \<Rightarrow> error option \<times> state" where
  "events_emit B ident extras s =
     (case local_emitHandler B local_camelCase ident extras s of
        (Inl e, extras', s') \<Rightarrow> (Some e, s')
      | (Inr matched, extras', s') \<Rightarrow>
          if \<not> matched then (None, remote_emitHandler ident extras' s') else (None, s'))"

section \<open>Notions used in the statements\<close>

text \<open>The key holds an array (possibly an empty one), the test \<^verbatim>\<open>if (Events)\<close>.\<close>

definition has_array :: "registry \<Rightarrow> string \<Rightarrow> bool" where
  "has_array Handlers key =
     (case Handlers key of Some (Array a) \<Rightarrow> True | Some Null \<Rightarrow> False | None \<Rightarrow> False)"

text \<open>The entries of the array the key refers to.\<close>

definition entries_of :: "registry \<Rightarrow> array_store \<Rightarrow> string \<Rightarrow> handler list" where
  "entries_of Handlers store key =
     (case Handlers key of Some (Array a) \<Rightarrow> contents store a | Some Null \<Rightarrow> [] | None \<Rightarrow> [])"

text \<open>The entry's callback is a function of the host, not a \<^verbatim>\<open>once\<close> closure.\<close>

definition host :: "handler \<Rightarrow> bool" where
  "host h = (case callback h of Fn f \<Rightarrow> True | Once ident cb captured \<Rightarrow> False)"

text \<open>The call that invoking an entry with the arguments \<open>args\<close> records.\<close>

definition logged :: "jsval list \<Rightarrow> handler \<Rightarrow> call list" where
  "logged args h =
     (case callback h of Fn f \<Rightarrow> [(f, thisArg h, args)] | Once ident cb captured \<Rightarrow> [])"

text \<open>
  A host function that returns normally and does not call the bus: whenever it is called
  it raises nothing and leaves the state as it found it, its own memory apart.
\<close>

definition well_behaved :: "host_behaviour \<Rightarrow> ref \<Rightarrow> bool" where
  "well_behaved B f = (\<forall>this_arg args s. \<exists>m. B f this_arg args s = (None, s\<lparr>host_memory := m\<rparr>))"

text \<open>An entry whose callback is a well-behaved host function.\<close>

definition calm :: "host_behaviour \<Rightarrow> handler \<Rightarrow> bool" where
  "calm B h = (case callback h of Fn f \<Rightarrow> well_behaved B f | Once ident cb captured \<Rightarrow> False)"

text \<open>An entry that is a \<^verbatim>\<open>once\<close> closure or a well-behaved host function.\<close>

definition harmless :: "host_behaviour \<Rightarrow> handler \<Rightarrow> bool" where
  "harmless B h = (case callback h of Fn f \<Rightarrow> well_behaved B f | Once ident cb captured \<Rightarrow> True)"

text \<open>A host in which every function returns at once.\<close>

definition idle :: host_behaviour where
  "idle f this_arg args s = (None, s)"

text \<open>
  A host in which function 7, when called, detaches itself from the local identifier
  \<^verbatim>\<open>ping\<close>, function 8 raises the value 0, and every other function returns at once.
\<close>

definition busy :: host_behaviour where
  "busy f this_arg args s =
     (if f = 7 then local_detach (MoreArguments ''ping'' (Some (Fn 7))) s
      else if f = 8 then (Some (Thrown (JNum 0)), s)
      else (None, s))"

text \<open>The key under which the local emit of the facade looks the identifier up.\<close>

definition local_key :: "string \<Rightarrow> string" where
  "local_key ident = normalize_local_emit local_camelCase ident"

section \<open>Facts about the normalizer\<close>

lemma char_of_nat_eq_iff: "n < 256 \<Longrightarrow> (char_of (n::nat) = c) = (of_char c = n)"
  by (metis char_of_char of_char_of mod_less)

lemmas eval_chars = alnum_def alpha_def is_upper_def is_lower_def is_digit_def toUpperCase_def
  char_of_nat_eq_iff

lemma length_replace_dash: "length (replace_dash cls s) \<le> length s"
  by (induction cls s rule: replace_dash.induct) auto

lemma replace_dash_fixed: "\<not> dash_then cls s \<Longrightarrow> replace_dash cls s = s"
  by (induction cls s rule: replace_dash.induct) auto

lemma replace_dash_shorter: "dash_then cls s \<Longrightarrow> length (replace_dash cls s) < length s"
proof (induction cls s rule: replace_dash.induct)
  case (1 cls d c rest)
  show ?case
  proof (cases "d = CHR ''-'' \<and> cls c")
    case True
    have "length (replace_dash cls rest) \<le> length rest" by (rule length_replace_dash)
    with True show ?thesis by simp
  next
    case False
    with "1.prems" have "dash_then cls (c # rest)" by simp
    with "1.IH"(2) False have "length (replace_dash cls (c # rest)) < length (c # rest)" by blast
    with False show ?thesis by auto
  qed
qed simp_all

lemma replace_dash_id_iff: "replace_dash cls s = s \<longleftrightarrow> \<not> dash_then cls s"
  using replace_dash_fixed replace_dash_shorter by fastforce

lemma alnum_dash: "\<not> alnum CHR ''-''"
  by (simp add: alnum_def is_upper_def is_lower_def is_digit_def)

lemma alnum_toUpperCase: "alnum c \<Longrightarrow> alnum (toUpperCase c)"
  by (auto simp: alnum_def is_upper_def is_lower_def is_digit_def toUpperCase_def)

lemma dash_dash_then_Cons:
  "dash_dash_then cls (a # t) =
     ((a = CHR ''-'' \<and> (\<exists>c rest. t = CHR ''-'' # c # rest \<and> cls c)) \<or> dash_dash_then cls t)"
proof (cases t)
  case Nil
  then show ?thesis by simp
next
  case (Cons b t')
  then show ?thesis by (cases t') auto
qed

lemma replace_dash_Cons:
  "replace_dash cls (c # rest) =
     (if c = CHR ''-'' \<and> (\<exists>e rest'. rest = e # rest' \<and> cls e)
      then toUpperCase (hd rest) # replace_dash cls (tl rest)
      else c # replace_dash cls rest)"
  by (cases rest) auto

lemma dash_then_Cons:
  "dash_then cls (d # t) = ((d = CHR ''-'' \<and> t \<noteq> [] \<and> cls (hd t)) \<or> dash_then cls t)"
  by (cases t) auto

text \<open>
  The output of the replacement still holds a dash before a character of the class
  exactly when the input held two dashes before one: the first dash is copied, the second
  is consumed with the character.
\<close>

lemma dash_then_replace_dash:
  "\<not> cls CHR ''-'' \<Longrightarrow> (\<forall>c. cls c \<longrightarrow> cls (toUpperCase c)) \<Longrightarrow>
   dash_then cls (replace_dash cls s) = dash_dash_then cls s"
proof (induction cls s rule: replace_dash.induct)
  case (1 cls d c rest)
  note nd = "1.prems"(1) and up = "1.prems"(2)
  show ?case
  proof (cases "d = CHR ''-'' \<and> cls c")
    case True
    then have c: "c \<noteq> CHR ''-''" and u: "toUpperCase c \<noteq> CHR ''-''"
      using nd up by auto
    have "dash_then cls (replace_dash cls (d # c # rest)) = dash_then cls (replace_dash cls rest)"
      using True u by (simp add: dash_then_Cons)
    also have "\<dots> = dash_dash_then cls rest"
      using "1.IH"(1) True nd up by blast
    also have "\<dots> = dash_dash_then cls (c # rest)"
      using c by (simp add: dash_dash_then_Cons)
    also have "\<dots> = dash_dash_then cls (d # c # rest)"
      using c dash_dash_then_Cons [of cls d "c # rest"] by simp
    finally show ?thesis .
  next
    case False
    have ih: "dash_then cls (replace_dash cls (c # rest)) = dash_dash_then cls (c # rest)"
      using "1.IH"(2) False nd up by blast
    let ?X = "c = CHR ''-'' \<and> (\<exists>e rest'. rest = e # rest' \<and> cls e)"
    have hd: "cls (hd (replace_dash cls (c # rest))) = (if ?X then True else cls c)"
      using up by (subst replace_dash_Cons) auto
    have ne: "replace_dash cls (c # rest) \<noteq> []"
      by (subst replace_dash_Cons) auto
    have eq: "replace_dash cls (d # c # rest) = d # replace_dash cls (c # rest)"
      using False by auto
    have "dash_then cls (d # replace_dash cls (c # rest)) =
            ((d = CHR ''-'' \<and> cls (hd (replace_dash cls (c # rest)))) \<or>
             dash_dash_then cls (c # rest))"
      using ne ih dash_then_Cons [of cls d "replace_dash cls (c # rest)"] by simp
    also have "\<dots> = ((d = CHR ''-'' \<and> ?X) \<or> dash_dash_then cls (c # rest))"
      using False hd by auto
    finally have "dash_then cls (replace_dash cls (d # c # rest)) =
            ((d = CHR ''-'' \<and> ?X) \<or> dash_dash_then cls (c # rest))"
      using eq by simp
    also have "\<dots> = dash_dash_then cls (d # c # rest)"
      using dash_dash_then_Cons [of cls d "c # rest"] by auto
    finally show ?thesis .
  qed
qed simp_all

lemma replace_dash_alnum_idem_iff:
  "replace_dash alnum (replace_dash alnum s) = replace_dash alnum s \<longleftrightarrow>
   \<not> dash_dash_then alnum s"
  using dash_then_replace_dash [of alnum s] alnum_dash alnum_toUpperCase
  by (simp add: replace_dash_id_iff)

section \<open>Facts about the registry, the queue and the callbacks\<close>

lemma splice_loop_take:
  "n \<le> length H \<Longrightarrow>
   splice_loop cb n H = filter (\<lambda>h. \<not> matches h cb) (take n H) @ drop n H"
proof (induction n arbitrary: H)
  case 0
  then show ?case by simp
next
  case (Suc i)
  then have i: "i < length H" by simp
  show ?case
  proof (cases "matches (H ! i) cb")
    case True
    let ?H' = "take i H @ drop (Suc i) H"
    have "i \<le> length ?H'" using i by simp
    then have "splice_loop cb i ?H' = filter (\<lambda>h. \<not> matches h cb) (take i ?H') @ drop i ?H'"
      by (rule Suc.IH)
    moreover have "take i ?H' = take i H" "drop i ?H' = drop (Suc i) H"
      using i by simp_all
    ultimately show ?thesis
      using True i by (simp add: take_Suc_conv_app_nth)
  next
    case False
    have "splice_loop cb i H = filter (\<lambda>h. \<not> matches h cb) (take i H) @ drop i H"
      using i by (intro Suc.IH) simp
    then show ?thesis
      using False i by (simp add: take_Suc_conv_app_nth Cons_nth_drop_Suc)
  qed
qed

lemma splice_loop_filter:
  "splice_loop cb (length H) H = filter (\<lambda>h. \<not> matches h cb) H"
  using splice_loop_take [of "length H" H cb] by simp



lemmas eval_json = pushed_text_def QuoteJSONString_def QuoteJSONString_char_def
  number_to_string_def digits.simps digit_char_def

lemmas eval_remote = remote_emitHandler_def pumpHandler_def connect_def socket_opens_def
  openHandler_def call_hook_def CONNECTING_def OPEN_def js_or_def install_def
  remote_options_def no_options_def writable_def

lemmas eval_registry = attachHandler_def normalize_identifier_def normalize_local_emit_def
  local_camelCase_def remote_options_def no_options_def writable_def js_or_def install_def
  events_on_def events_once_def events_off_def events_emit_def local_emitHandler_def
  local_attach_def local_detach_def remote_attach_def remote_detach_def forEach_def
  matches_def has_array_def entries_of_def local_key_def Let_def

lemma dash_then_suffix: "dash_then cls rest \<Longrightarrow> dash_then cls (c # rest)"
  by (simp add: dash_then_Cons)

lemma replace_dash_classes_agree:
  "(\<forall>c. cls2 c = (cls1 c \<or> D c)) \<Longrightarrow> \<not> dash_then D s \<Longrightarrow>
   replace_dash cls1 s = replace_dash cls2 s"
proof (induction cls1 s rule: replace_dash.induct)
  case (1 cls1 d c rest)
  show ?case
  proof (cases "d = CHR ''-'' \<and> cls1 c")
    case True
    have "\<not> dash_then D rest"
      using "1.prems"(2) dash_then_suffix [of D rest c] by auto
    then have "replace_dash cls1 rest = replace_dash cls2 rest"
      using "1.IH"(1) True "1.prems"(1) by blast
    moreover have "cls2 c" using True "1.prems"(1) by blast
    ultimately show ?thesis using True by simp
  next
    case False
    have nd: "\<not> (d = CHR ''-'' \<and> D c)" and "\<not> dash_then D (c # rest)"
      using "1.prems"(2) by auto
    then have "replace_dash cls1 (c # rest) = replace_dash cls2 (c # rest)"
      using "1.IH"(2) False "1.prems"(1) by blast
    moreover have "\<not> (d = CHR ''-'' \<and> cls2 c)"
      using False nd "1.prems"(1) by auto
    ultimately show ?thesis using False by auto
  qed
qed simp_all

lemma emit_key_is_attach_key:
  "\<not> dash_then is_digit ident \<Longrightarrow>
   normalize_local_emit camelCase ident = normalize_identifier camelCase ident"
  using replace_dash_classes_agree [of alnum alpha is_digit ident]
  by (auto simp: normalize_local_emit_def normalize_identifier_def alnum_def alpha_def)

lemma well_behaved_idle: "well_behaved idle f"
  unfolding well_behaved_def idle_def
proof (intro allI)
  fix this_arg :: "ref option" and args :: "jsval list" and s :: state
  have "(None :: error option, s) = (None, s\<lparr>host_memory := host_memory s\<rparr>)" by simp
  then show "\<exists>m. (None :: error option, s) = (None, s\<lparr>host_memory := m\<rparr>)" by (rule exI)
qed

lemma apply_callback_well_behaved:
  "well_behaved B f \<Longrightarrow>
   \<exists>m. apply_callback B (Fn f) this_arg args s =
     (None, s\<lparr>calls := calls s @ [(f, this_arg, args)], host_memory := m\<rparr>)"
proof -
  assume "well_behaved B f"
  then obtain m where
    "B f this_arg args (s\<lparr>calls := calls s @ [(f, this_arg, args)]\<rparr>) =
       (None, s\<lparr>calls := calls s @ [(f, this_arg, args)]\<rparr>\<lparr>host_memory := m\<rparr>)"
    unfolding well_behaved_def by blast
  then have "apply_callback B (Fn f) this_arg args s =
     (None, s\<lparr>calls := calls s @ [(f, this_arg, args)], host_memory := m\<rparr>)"
    by simp
  then show ?thesis by (rule exI)
qed

lemma forEach_from_harmless:
  "list_all (harmless B) H \<Longrightarrow> contents (arrays s) a = H \<Longrightarrow> k + n = length H \<Longrightarrow>
   \<exists>m. forEach_from B a args k n s =
     (if list_all host (drop k H) then None else Some TypeError,
      s\<lparr>calls := calls s @ concat (map (logged args) (takeWhile host (drop k H))),
        host_memory := m\<rparr>)"
proof (induction n arbitrary: k s)
  case 0
  then have "forEach_from B a args k 0 s =
     (if list_all host (drop k H) then None else Some TypeError,
      s\<lparr>calls := calls s @ concat (map (logged args) (takeWhile host (drop k H))),
        host_memory := host_memory s\<rparr>)"
    by simp
  then show ?case by (rule exI)
next
  case (Suc n)
  then have k: "k < length H" by simp
  let ?h = "H ! k"
  have dr: "drop k H = ?h # drop (Suc k) H"
    using k by (simp add: Cons_nth_drop_Suc)
  have hh: "harmless B ?h"
    using Suc.prems(1) k by (simp add: list_all_length)
  show ?case
  proof (cases "callback ?h")
    case (Once ident cb captured)
    then have "forEach_from B a args k (Suc n) s =
     (if list_all host (drop k H) then None else Some TypeError,
      s\<lparr>calls := calls s @ concat (map (logged args) (takeWhile host (drop k H))),
        host_memory := host_memory s\<rparr>)"
      using k Suc.prems(2) by (simp add: dr host_def)
    then show ?thesis by (rule exI)
  next
    case (Fn f)
    then have "well_behaved B f" using hh by (simp add: harmless_def)
    then obtain m1 where a1: "apply_callback B (Fn f) (thisArg ?h) args s =
        (None, s\<lparr>calls := calls s @ [(f, thisArg ?h, args)], host_memory := m1\<rparr>)"
      using apply_callback_well_behaved by blast
    let ?s1 = "s\<lparr>calls := calls s @ [(f, thisArg ?h, args)], host_memory := m1\<rparr>"
    have "contents (arrays ?s1) a = H" using Suc.prems(2) by simp
    moreover have "Suc k + n = length H" using Suc.prems(3) by simp
    ultimately obtain m where ih: "forEach_from B a args (Suc k) n ?s1 =
       (if list_all host (drop (Suc k) H) then None else Some TypeError,
        ?s1\<lparr>calls := calls ?s1 @ concat (map (logged args) (takeWhile host (drop (Suc k) H))),
          host_memory := m\<rparr>)"
      using Suc.IH [OF Suc.prems(1), of ?s1 "Suc k"] by blast
    have "forEach_from B a args k (Suc n) s =
     (if list_all host (drop k H) then None else Some TypeError,
      s\<lparr>calls := calls s @ concat (map (logged args) (takeWhile host (drop k H))),
        host_memory := m\<rparr>)"
      using k Suc.prems(2) Fn a1 ih by (simp add: dr host_def logged_def)
    then show ?thesis by (rule exI)
  qed
qed

lemma forEach_harmless:
  "list_all (harmless B) (contents (arrays s) a) \<Longrightarrow>
   \<exists>m. forEach B a args s =
     (if list_all host (contents (arrays s) a) then None else Some TypeError,
      s\<lparr>calls := calls s @ concat (map (logged args) (takeWhile host (contents (arrays s) a))),
        host_memory := m\<rparr>)"
  using forEach_from_harmless [of B "contents (arrays s) a" s a 0 "length (contents (arrays s) a)" args]
  by (simp add: forEach_def)

lemma map_of_assign: "map_of (assign ps k v) k = Some v"
  by (induction ps) auto



lemma local_emit_payload:
  assumes "extras \<noteq> [JNull]"
  shows "\<exists>args2 extras'. \<forall>B s.
     local_emitHandler B camelCase ident extras s =
       (case local_Handlers s (normalize_local_emit camelCase ident) of
          Some (Array a) \<Rightarrow>
            (case forEach B a [args2] s of
               (None, s') \<Rightarrow> (Inr True, extras', s')
             | (Some e, s') \<Rightarrow> (Inl e, extras', s'))
        | Some Null \<Rightarrow> (Inr False, extras', s)
        | None \<Rightarrow> (Inr False, extras', s))"
proof -
  define args where "args = (case extras of [] \<Rightarrow> JArr [] [] | [a] \<Rightarrow> a | a # b # others \<Rightarrow> JArr extras [])"
  define args1 where "args1 = (if typeof args \<noteq> ''object'' then JObj [(''arguments'', args)] else args)"
  have "args1 \<noteq> JNull"
    using assms unfolding args1_def args_def
    by (auto split: list.splits jsval.splits)
  then have "\<exists>a2. set_prop args1 ''undefined'' (JStr (normalize_local_emit camelCase ident)) = Inr a2"
    unfolding args1_def by (cases args) (auto split: if_splits)
  then obtain a2 where a2: "set_prop args1 ''undefined'' (JStr (normalize_local_emit camelCase ident)) = Inr a2"
    by blast
  show ?thesis
    apply (rule exI [of _ a2])
    apply (rule exI [of _ "if length extras = 1 \<and> typeof args = ''object'' then [a2] else extras"])
    using a2
    unfolding local_emitHandler_def args_def [symmetric] Let_def args1_def [symmetric]
    by (simp split: option.split slot.split)
qed

lemma local_emit_null:
  "local_emitHandler B camelCase ident [JNull] s = (Inl TypeError, [JNull], s)"
  by (simp add: local_emitHandler_def)

lemma local_emit_returns:
  "fst (local_emitHandler B camelCase ident extras s) = Inr b \<Longrightarrow>
   b = has_array (local_Handlers s) (normalize_local_emit camelCase ident)"
proof (cases "extras = [JNull]")
  case True
  assume "fst (local_emitHandler B camelCase ident extras s) = Inr b"
  with True show ?thesis by (simp add: local_emit_null)
next
  case False
  assume r: "fst (local_emitHandler B camelCase ident extras s) = Inr b"
  from local_emit_payload [OF False, of camelCase ident] obtain args2 extras' where
    "local_emitHandler B camelCase ident extras s =
       (case local_Handlers s (normalize_local_emit camelCase ident) of
          Some (Array a) \<Rightarrow>
            (case forEach B a [args2] s of
               (None, s') \<Rightarrow> (Inr True, extras', s')
             | (Some e, s') \<Rightarrow> (Inl e, extras', s'))
        | Some Null \<Rightarrow> (Inr False, extras', s)
        | None \<Rightarrow> (Inr False, extras', s))"
    by blast
  with r show ?thesis
    by (auto simp: has_array_def split: option.splits slot.splits prod.splits)
qed

lemma local_emit_harmless:
  assumes "extras \<noteq> [JNull]"
    and "local_Handlers s (normalize_local_emit camelCase ident) = Some (Array a)"
    and "list_all (harmless B) (contents (arrays s) a)"
  shows "\<exists>args2 extras' m. local_emitHandler B camelCase ident extras s =
     (if list_all host (contents (arrays s) a) then Inr True else Inl TypeError, extras',
      s\<lparr>calls := calls s @ concat (map (logged [args2]) (takeWhile host (contents (arrays s) a))),
        host_memory := m\<rparr>)"
proof -
  from local_emit_payload [OF assms(1), of camelCase ident] obtain args2 extras' where
    e: "local_emitHandler B camelCase ident extras s =
       (case local_Handlers s (normalize_local_emit camelCase ident) of
          Some (Array a) \<Rightarrow>
            (case forEach B a [args2] s of
               (None, s') \<Rightarrow> (Inr True, extras', s')
             | (Some e, s') \<Rightarrow> (Inl e, extras', s'))
        | Some Null \<Rightarrow> (Inr False, extras', s)
        | None \<Rightarrow> (Inr False, extras', s))"
    by blast
  from forEach_harmless [OF assms(3), of "[args2]"] obtain m where
    f: "forEach B a [args2] s =
     (if list_all host (contents (arrays s) a) then None else Some TypeError,
      s\<lparr>calls := calls s @ concat (map (logged [args2]) (takeWhile host (contents (arrays s) a))),
        host_memory := m\<rparr>)"
    by blast
  have "local_emitHandler B camelCase ident extras s =
     (if list_all host (contents (arrays s) a) then Inr True else Inl TypeError, extras',
      s\<lparr>calls := calls s @ concat (map (logged [args2]) (takeWhile host (contents (arrays s) a))),
        host_memory := m\<rparr>)"
    by (simp add: e assms(2) f)
  then show ?thesis by blast
qed

lemma local_emit_unmatched:
  assumes "extras \<noteq> [JNull]"
    and "\<not> has_array (local_Handlers s) (normalize_local_emit camelCase ident)"
  shows "\<exists>extras'. local_emitHandler B camelCase ident extras s = (Inr False, extras', s)"
proof -
  from local_emit_payload [OF assms(1), of camelCase ident] obtain args2 extras' where
    "local_emitHandler B camelCase ident extras s =
       (case local_Handlers s (normalize_local_emit camelCase ident) of
          Some (Array a) \<Rightarrow>
            (case forEach B a [args2] s of
               (None, s') \<Rightarrow> (Inr True, extras', s')
             | (Some e, s') \<Rightarrow> (Inl e, extras', s'))
        | Some Null \<Rightarrow> (Inr False, extras', s)
        | None \<Rightarrow> (Inr False, extras', s))"
    by blast
  with assms(2) have "local_emitHandler B camelCase ident extras s = (Inr False, extras', s)"
    by (auto simp: has_array_def split: option.splits slot.splits)
  then show ?thesis by (rule exI)
qed






lemma calm_harmless: "list_all (calm B) H \<Longrightarrow> list_all (harmless B) H \<and> list_all host H"
  by (induction H) (auto simp: calm_def harmless_def host_def split: func.splits)



text \<open>
  The loop of an emit follows the array as the callbacks leave it: when the first of two
  handlers detaches itself, the second moves to the index just visited and is not called;
  and a handler that raises ends the emit with its exception.
\<close>

lemma forEach_is_live:
  "events_emit busy ''ping'' []
     (local_attach ''ping'' (Fn 9) (Some 1) (local_attach ''ping'' (Fn 7) (Some 1) (install 0))) =
   (None, (install 0)\<lparr>local_Handlers := [''ping'' \<mapsto> Array 0],
       calls := [(7, Some 1, [JArr [] [(''undefined'', JStr ''ping'')]])],
       arrays := \<lparr>contents = (\<lambda>a. [])(0 := [\<lparr>callback = Fn 9, thisArg = Some 1\<rparr>]), fresh = 1\<rparr>\<rparr>) \<and>
   fst (events_emit busy ''ping'' []
     (local_attach ''ping'' (Fn 9) (Some 1) (local_attach ''ping'' (Fn 8) (Some 1) (install 0)))) =
   Some (Thrown (JNum 0))"
  by (simp add: eval_registry busy_def eval_chars)

section \<open>Claims about the normalizer\<close>

text \<open>
  C3, as stated: normalizing with camelCase enabled is idempotent on every string,
  those with consecutive dashes included. This fails: in \<^verbatim>\<open>--a\<close> the first dash is
  copied and the second is consumed with the letter, which gives \<^verbatim>\<open>-A\<close>; normalizing
  again consumes the remaining dash and gives \<^verbatim>\<open>A\<close>.
\<close>

theorem normalize_not_idempotent:
  "normalize_identifier (JBool True) ''--a'' = ''-A'' \<and>
   normalize_identifier (JBool True) (normalize_identifier (JBool True) ''--a'') = ''A'' \<and>
   normalize_identifier (JBool True) (normalize_identifier (JBool True) ''--a'') \<noteq> normalize_identifier (JBool True) ''--a''"
  by (simp add: normalize_identifier_def eval_chars)

text \<open>
  C3, amended: normalizing a normalized string returns it unchanged exactly for the
  strings in which no two consecutive dashes stand before a letter or digit.
\<close>

theorem normalize_idempotent_iff:
  "normalize_identifier (JBool True) (normalize_identifier (JBool True) s) = normalize_identifier (JBool True) s \<longleftrightarrow>
   \<not> dash_dash_then alnum s"
  by (simp add: normalize_identifier_def replace_dash_alnum_idem_iff)

theorem normalize_idempotent_witness:
  "normalize_identifier (JBool True) (normalize_identifier (JBool True) ''new-score-2'') =
   normalize_identifier (JBool True) ''new-score-2''"
  using normalize_idempotent_iff [of "''new-score-2''"]
  by (simp add: alnum_def is_upper_def is_lower_def is_digit_def)

text \<open>
  C10, as stated: for every options object supplied at install time the camelCase setting
  both channels use is true, so normalization can never be disabled through
  configuration, and the normalizer is the identity only on inputs without a dash before
  a letter or digit. This fails for the remote channel: it keeps the host's object and
  reads \<^verbatim>\<open>options.camelCase\<close> at every operation, so on a frozen object that says
  \<^verbatim>\<open>camelCase: false\<close> the assignment of line 27 is dropped and the setting stays
  false, and when the host passes \<^verbatim>\<open>{}\<close> and assigns \<^verbatim>\<open>camelCase = false\<close> to it
  after install the setting is false as well; attach then stores \<^verbatim>\<open>new-score\<close> as
  passed. It also fails for the expression of the
  local emit, which leaves \<^verbatim>\<open>stage-2\<close> unchanged although a dash stands before a
  digit.
\<close>

theorem camelCase_can_be_disabled:
  "options_camelCase (remote_options
      (Some (frozen (no_options\<lparr>options_camelCase := JBool False\<rparr>)))) = JBool False \<and>
   remote_Handlers (remote_attach
      (remote_options (Some (frozen (no_options\<lparr>options_camelCase := JBool False\<rparr>))))
      ''new-score'' (Fn 7) None (install 0)) = [''new-score'' \<mapsto> Array 0] \<and>
   remote_Handlers (remote_attach
      ((remote_options (Some no_options))\<lparr>options_camelCase := JBool False\<rparr>)
      ''new-score'' (Fn 7) None (install 0)) = [''new-score'' \<mapsto> Array 0] \<and>
   dash_then alnum ''new-score'' \<and>
   normalize_local_emit local_camelCase ''stage-2'' = ''stage-2'' \<and>
   dash_then alnum ''stage-2''"
  by (simp add: eval_registry frozen_def eval_chars)

text \<open>
  C10, amended: when no options object is supplied, or one whose property camelCase takes
  the assignment of line 27 (one that sets camelCase to false included), the camelCase
  setting that install leaves on the remote channel's options object is truthy, and it is
  \<^verbatim>\<open>true\<close> when the value given was falsy; when the property does not take the
  assignment the setting stays as given. The local channel's own setting is \<^verbatim>\<open>true\<close>
  whatever is supplied. Whenever the setting read is truthy, the normalizing expression of
  attach, detach and the inbound handler returns its input unchanged exactly when the
  input holds no dash followed by a letter or digit; when it is falsy the expression
  returns every input unchanged.
\<close>

theorem camelCase_after_install:
  "(writable g ''camelCase'' \<longrightarrow>
      truthy (options_camelCase (remote_options (Some g))) \<and>
      (\<not> truthy (options_camelCase g) \<longrightarrow> options_camelCase (remote_options (Some g)) = JBool True)) \<and>
   (\<not> writable g ''camelCase'' \<longrightarrow>
      options_camelCase (remote_options (Some g)) = options_camelCase g) \<and>
   options_camelCase (remote_options None) = JBool True \<and>
   local_camelCase = JBool True \<and>
   (truthy camelCase \<longrightarrow> (normalize_identifier camelCase s = s \<longleftrightarrow> \<not> dash_then alnum s)) \<and>
   (\<not> truthy camelCase \<longrightarrow> normalize_identifier camelCase s = s)"
  by (simp add: remote_options_def no_options_def writable_def local_camelCase_def js_or_def
      normalize_identifier_def replace_dash_id_iff Let_def)

theorem camelCase_after_install_witness:
  "truthy (options_camelCase (remote_options (Some (no_options\<lparr>options_camelCase := JBool False\<rparr>)))) \<and>
   options_camelCase (remote_options (Some (no_options\<lparr>options_camelCase := JBool False\<rparr>))) = JBool True \<and>
   options_camelCase (remote_options (Some (frozen (no_options\<lparr>options_camelCase := JBool False\<rparr>)))) =
     JBool False \<and>
   normalize_identifier (JBool True) ''new-score'' \<noteq> ''new-score'' \<and>
   normalize_identifier (JBool True) ''newScore'' = ''newScore'' \<and>
   normalize_identifier (JBool False) ''new-score'' = ''new-score''"
proof -
  let ?g = "no_options\<lparr>options_camelCase := JBool False\<rparr>"
  have h: "writable ?g ''camelCase''" "\<not> truthy (options_camelCase ?g)" "truthy (JBool True)"
    "\<not> truthy (JBool False)" "dash_then alnum ''new-score''" "\<not> dash_then alnum ''newScore''"
    "\<not> writable (frozen ?g) ''camelCase''" "options_camelCase (frozen ?g) = JBool False"
    by (simp_all add: no_options_def writable_def frozen_def alnum_def is_upper_def is_lower_def
        is_digit_def)
  note t1 = camelCase_after_install [of ?g "JBool True" "''new-score''"]
  note t2 = camelCase_after_install [of ?g "JBool True" "''newScore''"]
  note t3 = camelCase_after_install [of ?g "JBool False" "''new-score''"]
  note t4 = camelCase_after_install [of "frozen ?g" "JBool False" "''new-score''"]
  have a: "truthy (options_camelCase (remote_options (Some ?g)))"
    "options_camelCase (remote_options (Some ?g)) = JBool True"
    using t1 h by blast+
  have b: "options_camelCase (remote_options (Some (frozen ?g))) = JBool False"
    using t4 h by simp
  have c: "normalize_identifier (JBool True) ''new-score'' \<noteq> ''new-score''"
    "normalize_identifier (JBool True) ''newScore'' = ''newScore''"
    "normalize_identifier (JBool False) ''new-score'' = ''new-score''"
    using t1 t2 t3 h by blast+
  from a b c show ?thesis by blast
qed

section \<open>Claims about the remote channel\<close>



text \<open>
  C5, as stated: the remote emit appends the serialization of the sole extra argument
  with the identifier injected when that argument is structured, and the serialization of
  \<^verbatim>\<open>{identifier: id, arguments: args}\<close> in every other case. The two examples of the
  specification come out as it says, but with no extra argument, with several, or with a
  falsy one, \<^verbatim>\<open>args\<close> is an array: \<^verbatim>\<open>typeof args\<close> is "object", the identifier is
  set as a named property of the array, and \<^verbatim>\<open>JSON.stringify\<close> drops it. The
  statement evaluates the source at these inputs.
\<close>

theorem remote_emit_examples:
  \<open>socketPump (remote_emitHandler ''greet'' [] (install 0)) = [''[]''] \<and>
   socketPump (remote_emitHandler ''greet'' [JNum 1, JNum 2] (install 0)) = [''[1,2]''] \<and>
   socketPump (remote_emitHandler ''greet'' [JNum 0] (install 0)) = [''[]''] \<and>
   socketPump (remote_emitHandler ''greet'' [JObj [(''name'', JStr ''x'')]] (install 0)) =
     [''{"name":"x","identifier":"greet"}''] \<and>
   socketPump (remote_emitHandler ''greet'' [JNum 42] (install 0)) =
     [''{"identifier":"greet","arguments":42}'']\<close>
  by (simp add: eval_remote eval_json)

section \<open>Claims about the normalization sites\<close>

text \<open>
  C4, as stated: attach, detach, local emit, remote emit and the inbound handler compute
  the same canonical key from every raw identifier. Attach, detach and the inbound
  handler share the class \<^verbatim>\<open>[A-Za-z0-9]\<close>, but the local emit writes \<^verbatim>\<open>[a-z]\<close>, so
  a dash before a digit survives there, and the remote emit does not normalize at all.
  The statement evaluates the source: a handler attached locally under \<^verbatim>\<open>stage-2\<close> is
  stored under \<^verbatim>\<open>stage2\<close>, the local emit of \<^verbatim>\<open>stage-2\<close> looks under \<^verbatim>\<open>stage-2\<close>
  and reports no match, whatever the host's functions do; the remote emit of
  \<^verbatim>\<open>new-score\<close> sends that spelling, while a frame carrying it would be dispatched under
  \<^verbatim>\<open>newScore\<close>.
\<close>

theorem normalization_sites_disagree:
  \<open>normalize_identifier local_camelCase ''stage-2'' = ''stage2'' \<and>
   normalize_local_emit local_camelCase ''stage-2'' = ''stage-2'' \<and>
   fst (local_emitHandler B local_camelCase ''stage-2'' []
          (events_on (remote_options None) 1 ''stage-2'' True (Fn 7) (install 0))) = Inr False \<and>
   socketPump (remote_emitHandler ''new-score'' [JNum 7] (install 0)) =
     [''{"identifier":"new-score","arguments":7}''] \<and>
   normalize_identifier (options_camelCase (remote_options None)) ''new-score'' = ''newScore''\<close>
  by (simp add: eval_registry eval_chars eval_json remote_emitHandler_def)

section \<open>Claims about the registry\<close>

text \<open>
  C7, as stated: detach without arguments clears the registry and completes without
  error. In the source the normalization of \<^verbatim>\<open>identifier\<close> stands before the test of
  \<^verbatim>\<open>arguments.length\<close>; without arguments \<^verbatim>\<open>identifier\<close> is \<^verbatim>\<open>undefined\<close>, so
  with a truthy camelCase the call raises on \<^verbatim>\<open>identifier.replace\<close> and the branch
  that clears is not reached: in the local channel always, in the remote channel with the
  options as install leaves them, and in every registry for every value that
  \<^verbatim>\<open>options.camelCase || true\<close> can have. The registry is left as it was and a later
  emit still finds the handlers.
\<close>

theorem detach_without_arguments_raises:
  "local_detach NoArguments s = (Some TypeError, s) \<and>
   remote_detach (remote_options None) NoArguments s = (Some TypeError, s) \<and>
   detachHandler (js_or given (JBool True)) NoArguments R = Inl TypeError \<and>
   local_detach NoArguments (events_on (remote_options None) 1 ''ping'' True (Fn 7) (install 0)) =
     (Some TypeError, events_on (remote_options None) 1 ''ping'' True (Fn 7) (install 0)) \<and>
   fst (local_emitHandler idle local_camelCase ''ping'' []
     (events_on (remote_options None) 1 ''ping'' True (Fn 7) (install 0))) = Inr True"
  by (simp add: eval_registry eval_chars idle_def)

text \<open>
  C8, as stated: the local emit returns true exactly when at least one entry is registered
  under the normalized identifier, and so returns false once a two-argument detach has
  removed every entry. This fails: the detach loop leaves the emptied array in place, the
  test \<^verbatim>\<open>if (Events)\<close> accepts an empty array, and the emit returns true.
\<close>

theorem emit_true_without_entries:
  "entries_of
     (local_Handlers (snd (local_detach (MoreArguments ''ping'' (Some (Fn 7)))
        (local_attach ''ping'' (Fn 7) (Some 1) (install 0)))))
     (arrays (snd (local_detach (MoreArguments ''ping'' (Some (Fn 7)))
        (local_attach ''ping'' (Fn 7) (Some 1) (install 0)))))
     ''ping'' = [] \<and>
   fst (local_emitHandler idle local_camelCase ''ping'' []
     (snd (local_detach (MoreArguments ''ping'' (Some (Fn 7)))
        (local_attach ''ping'' (Fn 7) (Some 1) (install 0))))) = Inr True"
  by (simp add: eval_registry eval_chars idle_def)

text \<open>
  C8, amended: whenever the local emit returns, it returns true exactly when the key it
  computes holds an array, empty or not, and false when the key is missing or holds
  \<^verbatim>\<open>null\<close>. It does return when the sole extra argument is not \<^verbatim>\<open>null\<close> and every
  entry of the array is a function of the host that returns normally and does not call
  the bus. In particular, after a two-argument detach has removed every entry stored for
  an identifier that has no dash before a digit, the emptied array remains and emitting
  that identifier (with a sole extra argument other than \<^verbatim>\<open>null\<close>) returns true.
\<close>

theorem local_emit_reports_array:
  "(fst (local_emitHandler B camelCase ident extras s) = Inr b \<longrightarrow>
      b = has_array (local_Handlers s) (normalize_local_emit camelCase ident)) \<and>
   (extras \<noteq> [JNull] \<and>
    list_all (calm B)
      (entries_of (local_Handlers s) (arrays s) (normalize_local_emit camelCase ident)) \<longrightarrow>
      fst (local_emitHandler B camelCase ident extras s) =
        Inr (has_array (local_Handlers s) (normalize_local_emit camelCase ident))) \<and>
   (extras \<noteq> [JNull] \<and> \<not> dash_then is_digit ident \<and>
    local_Handlers s (normalize_identifier local_camelCase ident) = Some (Array a) \<and>
    list_all (\<lambda>h. matches h cb) (contents (arrays s) a) \<longrightarrow>
      entries_of (local_Handlers (snd (local_detach (MoreArguments ident cb) s)))
        (arrays (snd (local_detach (MoreArguments ident cb) s)))
        (normalize_identifier local_camelCase ident) = [] \<and>
      fst (local_emitHandler B local_camelCase ident extras
             (snd (local_detach (MoreArguments ident cb) s))) = Inr True)"
proof (intro conjI impI)
  assume "fst (local_emitHandler B camelCase ident extras s) = Inr b"
  then show "b = has_array (local_Handlers s) (normalize_local_emit camelCase ident)"
    by (rule local_emit_returns)
next
  let ?key = "normalize_local_emit camelCase ident"
  assume h: "extras \<noteq> [JNull] \<and> list_all (calm B) (entries_of (local_Handlers s) (arrays s) ?key)"
  show "fst (local_emitHandler B camelCase ident extras s) = Inr (has_array (local_Handlers s) ?key)"
  proof (cases "has_array (local_Handlers s) ?key")
    case False
    then show ?thesis
      using local_emit_unmatched [of extras s camelCase ident B] h by auto
  next
    case True
    then obtain a where a: "local_Handlers s ?key = Some (Array a)"
      by (auto simp: has_array_def split: option.splits slot.splits)
    with h have "list_all (calm B) (contents (arrays s) a)"
      by (simp add: entries_of_def)
    then have "list_all (harmless B) (contents (arrays s) a)" "list_all host (contents (arrays s) a)"
      using calm_harmless by blast+
    then show ?thesis
      using local_emit_harmless [of extras s camelCase ident a B] h a True by auto
  qed
next
  let ?key = "normalize_identifier local_camelCase ident"
  let ?s' = "snd (local_detach (MoreArguments ident cb) s)"
  assume h: "extras \<noteq> [JNull] \<and> \<not> dash_then is_digit ident \<and>
    local_Handlers s ?key = Some (Array a) \<and> list_all (\<lambda>h. matches h cb) (contents (arrays s) a)"
  then have f: "filter (\<lambda>h. \<not> matches h cb) (contents (arrays s) a) = []"
    by (simp add: list_all_iff)
  have s': "local_Handlers ?s' ?key = Some (Array a)" "contents (arrays ?s') a = []"
    using h f by (simp_all add: local_detach_def splice_loop_filter Let_def)
  then show "entries_of (local_Handlers ?s') (arrays ?s') ?key = []"
    by (simp add: entries_of_def)
  have k: "normalize_local_emit local_camelCase ident = ?key"
    using h emit_key_is_attach_key by blast
  show "fst (local_emitHandler B local_camelCase ident extras ?s') = Inr True"
    using local_emit_harmless [of extras ?s' local_camelCase ident a B] h s' k by auto
qed

theorem local_emit_reports_array_witness:
  "fst (local_emitHandler idle local_camelCase ''ping'' [JNum 42]
          (local_attach ''ping'' (Fn 7) (Some 1) (install 0))) = Inr True \<and>
   has_array (local_Handlers (local_attach ''ping'' (Fn 7) (Some 1) (install 0)))
     (normalize_local_emit local_camelCase ''ping'') \<and>
   fst (local_emitHandler idle local_camelCase ''ping'' [JNum 42] (install 0)) = Inr False \<and>
   fst (local_emitHandler idle local_camelCase ''ping'' [JNum 42]
          (snd (local_detach (MoreArguments ''ping'' (Some (Fn 7)))
             (local_attach ''ping'' (Fn 7) (Some 1) (install 0))))) = Inr True"
proof -
  let ?s1 = "local_attach ''ping'' (Fn 7) (Some 1) (install 0)"
  let ?k = "normalize_local_emit local_camelCase ''ping''"
  have wb: "well_behaved idle 7" by (rule well_behaved_idle)
  have h1: "has_array (local_Handlers ?s1) ?k"
    "entries_of (local_Handlers ?s1) (arrays ?s1) ?k = [\<lparr>callback = Fn 7, thisArg = Some 1\<rparr>]"
    "local_Handlers ?s1 (normalize_identifier local_camelCase ''ping'') = Some (Array 0)"
    "list_all (\<lambda>h. matches h (Some (Fn 7))) (contents (arrays ?s1) 0)"
    by (simp_all add: eval_registry eval_chars)
  have c1: "list_all (calm idle) (entries_of (local_Handlers ?s1) (arrays ?s1) ?k)"
    unfolding h1(2) using wb by (simp add: calm_def)
  have h0: "\<not> has_array (local_Handlers (install 0)) ?k"
    "list_all (calm idle) (entries_of (local_Handlers (install 0)) (arrays (install 0)) ?k)"
    by (simp_all add: has_array_def entries_of_def install_def)
  have p: "[JNum 42] \<noteq> [JNull]" "\<not> dash_then is_digit ''ping''"
    by (simp_all add: is_digit_def)
  note t1 = local_emit_reports_array [of idle local_camelCase "''ping''" "[JNum 42]" ?s1 True 0 "Some (Fn 7)"]
  note t0 = local_emit_reports_array [of idle local_camelCase "''ping''" "[JNum 42]" "install 0" False 0 "Some (Fn 7)"]
  from t1 t0 h1 c1 h0 p show ?thesis by simp
qed

text \<open>
  C9, as stated: after full detachment the identifier is absent from the mapping, not
  mapped to an empty or null sequence. This fails on both paths: the one-argument detach
  assigns \<^verbatim>\<open>Handlers[identifier] = null\<close>, and the two-argument detach splices the
  entries out of the array and leaves the array.
\<close>

theorem detach_leaves_null_or_empty:
  "local_Handlers (snd (local_detach (OneArgument ''ping'')
      (local_attach ''ping'' (Fn 7) None (install 0)))) ''ping'' = Some Null \<and>
   local_Handlers (snd (local_detach (MoreArguments ''ping'' (Some (Fn 7)))
      (local_attach ''ping'' (Fn 7) None (install 0)))) ''ping'' = Some (Array 0) \<and>
   contents (arrays (snd (local_detach (MoreArguments ''ping'' (Some (Fn 7)))
      (local_attach ''ping'' (Fn 7) None (install 0))))) 0 = [] \<and>
   ''ping'' \<in> dom (local_Handlers (snd (local_detach (OneArgument ''ping'')
      (local_attach ''ping'' (Fn 7) None (install 0))))) \<and>
   ''ping'' \<in> dom (local_Handlers (snd (local_detach (MoreArguments ''ping'' (Some (Fn 7)))
      (local_attach ''ping'' (Fn 7) None (install 0)))))"
  by (simp add: eval_registry eval_chars)

text \<open>
  C9, amended: in every state of the registry, the one-argument detach of an identifier
  that holds a sequence leaves the identifier in the mapping, holding \<^verbatim>\<open>null\<close>; the
  two-argument detach leaves it holding the same sequence without the matching entries,
  the empty sequence when all matched. A key that holds \<^verbatim>\<open>null\<close> counts as having no
  sequence: detach does nothing and attach starts a new sequence.
\<close>

theorem detach_keeps_the_key:
  "(Handlers (normalize_identifier camelCase ident) = Some (Array a) \<longrightarrow>
      detachHandler camelCase (OneArgument ident) (Handlers, store) =
        Inr (Handlers(normalize_identifier camelCase ident \<mapsto> Null), store) \<and>
      detachHandler camelCase (MoreArguments ident cb) (Handlers, store) =
        Inr (Handlers,
             store\<lparr>contents := (contents store)
               (a := filter (\<lambda>h. \<not> matches h cb) (contents store a))\<rparr>)) \<and>
   (Handlers (normalize_identifier camelCase ident) = Some Null \<longrightarrow>
      \<not> has_array Handlers (normalize_identifier camelCase ident) \<and>
      detachHandler camelCase (OneArgument ident) (Handlers, store) = Inr (Handlers, store) \<and>
      detachHandler camelCase (MoreArguments ident cb) (Handlers, store) = Inr (Handlers, store) \<and>
      attachHandler camelCase ident cb' this_arg (Handlers, store) =
        (Handlers(normalize_identifier camelCase ident \<mapsto> Array (fresh store)),
         store\<lparr>contents := (contents store)(fresh store := [\<lparr>callback = cb', thisArg = this_arg\<rparr>]),
               fresh := Suc (fresh store)\<rparr>))"
  by (simp add: splice_loop_filter has_array_def attachHandler_def Let_def)

theorem detach_keeps_the_key_witness:
  "detachHandler (JBool True) (OneArgument ''new-score'')
      ([''newScore'' \<mapsto> Array 0], \<lparr>contents = (\<lambda>a. [])(0 := [\<lparr>callback = Fn 7, thisArg = None\<rparr>]), fresh = 1\<rparr>) =
     Inr ([''newScore'' \<mapsto> Null],
          \<lparr>contents = (\<lambda>a. [])(0 := [\<lparr>callback = Fn 7, thisArg = None\<rparr>]), fresh = 1\<rparr>) \<and>
   detachHandler (JBool True) (MoreArguments ''new-score'' (Some (Fn 7)))
      ([''newScore'' \<mapsto> Array 0], \<lparr>contents = (\<lambda>a. [])(0 := [\<lparr>callback = Fn 7, thisArg = None\<rparr>]), fresh = 1\<rparr>) =
     Inr ([''newScore'' \<mapsto> Array 0], \<lparr>contents = (\<lambda>a. []), fresh = 1\<rparr>) \<and>
   attachHandler (JBool True) ''new-score'' (Fn 8) (Some 2)
      ([''newScore'' \<mapsto> Null], \<lparr>contents = (\<lambda>a. []), fresh = 1\<rparr>) =
     ([''newScore'' \<mapsto> Array 1],
      \<lparr>contents = (\<lambda>a. [])(1 := [\<lparr>callback = Fn 8, thisArg = Some 2\<rparr>]), fresh = 2\<rparr>)"
proof -
  let ?st = "\<lparr>contents = (\<lambda>a. [])(0 := [\<lparr>callback = Fn 7, thisArg = None\<rparr>]), fresh = 1\<rparr>"
  let ?st0 = "\<lparr>contents = (\<lambda>a. []) :: nat \<Rightarrow> handler list, fresh = 1\<rparr>"
  have k: "normalize_identifier (JBool True) ''new-score'' = ''newScore''"
    by (simp add: normalize_identifier_def eval_chars)
  have a: "[''newScore'' \<mapsto> Array 0] (normalize_identifier (JBool True) ''new-score'') = Some (Array 0)"
    and n: "[''newScore'' \<mapsto> Null] (normalize_identifier (JBool True) ''new-score'') = Some Null"
    by (simp_all add: k)
  note t1 = detach_keeps_the_key [of "[''newScore'' \<mapsto> Array 0]" "JBool True" "''new-score''" 0
      ?st "Some (Fn 7)" "Fn 8" "Some 2"]
  note t2 = detach_keeps_the_key [of "[''newScore'' \<mapsto> Null]" "JBool True" "''new-score''" 0
      ?st0 "Some (Fn 7)" "Fn 8" "Some 2"]
  show ?thesis
    using t1 t2 a n by (simp add: k matches_def fun_upd_idem)
qed

section \<open>Claims about the facade\<close>

text \<open>
  C6, as stated: a callback attached with \<^verbatim>\<open>$once\<close> is invoked exactly once when its
  identifier is emitted twice on the channel it was attached to. The closure that
  \<^verbatim>\<open>$once\<close> attaches starts with \<^verbatim>\<open>Vue.remote.detach(identifier, callback)\<close>, and
  \<^verbatim>\<open>Vue.remote\<close> is not defined (the registry is \<^verbatim>\<open>Vue.Events.remote\<close>): each
  emit raises inside the closure, the callback is never called, whatever it would do, and
  the closure stays attached. The statement evaluates both emits on the local channel,
  and the delivery of a frame on the remote one.
\<close>

theorem once_never_calls_back:
  "fst (events_emit B ''ping'' []
          (events_once (remote_options None) 1 ''ping'' True (Fn 7) (install 0))) = Some TypeError \<and>
   calls (snd (events_emit B ''ping'' []
          (events_once (remote_options None) 1 ''ping'' True (Fn 7) (install 0)))) = [] \<and>
   fst (events_emit B ''ping'' []
          (snd (events_emit B ''ping'' []
             (events_once (remote_options None) 1 ''ping'' True (Fn 7) (install 0))))) = Some TypeError \<and>
   calls (snd (events_emit B ''ping'' []
          (snd (events_emit B ''ping'' []
             (events_once (remote_options None) 1 ''ping'' True (Fn 7) (install 0)))))) = [] \<and>
   messageHandler B (remote_options None) (JObj [(''identifier'', JStr ''ping'')])
      (events_once (remote_options None) 1 ''ping'' False (Fn 7) (install 0)) =
     (Some TypeError, events_once (remote_options None) 1 ''ping'' False (Fn 7) (install 0))"
  by (simp add: eval_registry messageHandler_def eval_chars)




end
